theory Spec2Isabelle
  imports Complex_Main
begin

section \<open>The browser-session controller of fake\_chatgpt\_api.py\<close>

text \<open>
  The class \<open>FakeChatGPTAPI\<close> drives a browser through Selenium. Every call into the
  driver, the console or the operating system is an \<open>action\<close>; the answer of the outside
  world to an action is a \<open>reply\<close>, given by an oracle that sees the actions performed so
  far. The object's attributes and the file system are an explicit state, exceptions are
  values of a sum type, and each method returns its result together with the new state.
\<close>

subsection \<open>Exceptions, JSON values, locators\<close>

datatype exn =
    TimeoutException
  | NoSuchElementException
  | WebDriverException
  | OSError
  | JSONDecodeError
  | AttributeError
  | TypeError
  | IndexError
  | UnboundLocalError
  | EOFError

type_synonym 'a result = "exn + 'a"

datatype json =
    JNull
  | JBool bool
  | JNumber rat
  | JString string
  | JArray "json list"
  | JObject "(string \<times> json) list"

datatype locator = ById string | ByCss string | ByXPath string

type_synonym element = nat

datatype key = Str string | SHIFT | RETURN

subsection \<open>Actions on the outside world and its replies\<close>

datatype action =
    MakeDirs string
  | Launch "string list"
  | Get string
  | AddCookie json
  | GetCookies
  | FindElement locator
  | WaitPresence locator int
  | WaitAllPresence locator int
  | WaitClickable locator int
  | WaitInvisible locator int
  | Click element
  | SendKeys element "key list"
  | IsEnabled element
  | GetText element
  | Focus element
  | Refresh
  | Sleep int
  | Input string

datatype reply =
    Raise exn
  | Done
  | Elem element
  | Elems "element list"
  | Text string
  | Flag bool
  | Cookies "json list"

record world =
  page :: "action list \<Rightarrow> action \<Rightarrow> reply"
  json_loads :: "string \<Rightarrow> json result"
  json_dump :: "json list \<Rightarrow> string"

subsection \<open>The file system\<close>

text \<open>
  Regular files by path. \<open>can_create\<close> says where \<open>open(path, 'w')\<close> succeeds (the
  directory exists and may be written); the empty path can never be opened. A failed
  \<open>open\<close> raises an \<open>OSError\<close> (\<open>FileNotFoundError\<close>, \<open>PermissionError\<close>).
\<close>

record filesystem =
  contents :: "string \<Rightarrow> string option"
  can_create :: "string \<Rightarrow> bool"

definition path_exists :: "filesystem \<Rightarrow> string \<Rightarrow> bool" where
  "path_exists fs p = (p \<noteq> [] \<and> contents fs p \<noteq> None)"

definition writable :: "filesystem \<Rightarrow> string \<Rightarrow> bool" where
  "writable fs p = (p \<noteq> [] \<and> can_create fs p)"

definition write_file :: "filesystem \<Rightarrow> string \<Rightarrow> string \<Rightarrow> filesystem result" where
  "write_file fs p txt =
     (if writable fs p then Inr (fs\<lparr>contents := (contents fs)(p \<mapsto> txt)\<rparr>)
      else Inl OSError)"

definition read_file :: "filesystem \<Rightarrow> string \<Rightarrow> string result" where
  "read_file fs p =
     (if p = [] then Inl OSError
      else case contents fs p of None \<Rightarrow> Inl OSError | Some txt \<Rightarrow> Inr txt)"

subsection \<open>The object and its configuration\<close>

record api =
  is_context_created :: bool
  driver_path :: string
  url :: string
  wait_time :: int
  use_4o :: bool
  prompt_text_area :: "element option"
  send_button :: "element option"
  trace :: "action list"
  fs :: filesystem

record config =
  cfg_user_data_dir :: string
  cfg_profile_directory :: string
  cfg_driver_path :: string
  cfg_url :: string
  cfg_wait_time :: int
  cfg_use_chatgpt4o :: bool
  cfg_manual_login :: bool
  cfg_context_content :: string
  cfg_headless_mode :: "bool option"
  cfg_cookies_path :: "string option"

definition new_api :: "filesystem \<Rightarrow> api" where
  "new_api f = \<lparr>is_context_created = False, driver_path = [], url = [], wait_time = 0,
     use_4o = False, prompt_text_area = None, send_button = None, trace = [], fs = f\<rparr>"

subsection \<open>Driver primitives\<close>

definition perform :: "world \<Rightarrow> action \<Rightarrow> api \<Rightarrow> reply \<times> api" where
  "perform w a s = (page w (trace s) a, s\<lparr>trace := trace s @ [a]\<rparr>)"

definition as_unit :: "reply \<Rightarrow> unit result" where
  "as_unit r = (case r of Raise x \<Rightarrow> Inl x | _ \<Rightarrow> Inr ())"

definition as_element :: "reply \<Rightarrow> element result" where
  "as_element r = (case r of Raise x \<Rightarrow> Inl x | Elem e \<Rightarrow> Inr e | _ \<Rightarrow> Inl WebDriverException)"

definition as_elements :: "reply \<Rightarrow> element list result" where
  "as_elements r = (case r of Raise x \<Rightarrow> Inl x | Elems es \<Rightarrow> Inr es | _ \<Rightarrow> Inl WebDriverException)"

definition as_text :: "reply \<Rightarrow> string result" where
  "as_text r = (case r of Raise x \<Rightarrow> Inl x | Text t \<Rightarrow> Inr t | _ \<Rightarrow> Inl WebDriverException)"

definition as_flag :: "reply \<Rightarrow> bool result" where
  "as_flag r = (case r of Raise x \<Rightarrow> Inl x | Flag b \<Rightarrow> Inr b | _ \<Rightarrow> Inl WebDriverException)"

definition as_cookies :: "reply \<Rightarrow> json list result" where
  "as_cookies r = (case r of Raise x \<Rightarrow> Inl x | Cookies cs \<Rightarrow> Inr cs | _ \<Rightarrow> Inl WebDriverException)"

definition do_unit :: "world \<Rightarrow> action \<Rightarrow> api \<Rightarrow> unit result \<times> api" where
  "do_unit w a s = (case perform w a s of (r, s1) \<Rightarrow> (as_unit r, s1))"

definition do_element :: "world \<Rightarrow> action \<Rightarrow> api \<Rightarrow> element result \<times> api" where
  "do_element w a s = (case perform w a s of (r, s1) \<Rightarrow> (as_element r, s1))"

definition do_elements :: "world \<Rightarrow> action \<Rightarrow> api \<Rightarrow> element list result \<times> api" where
  "do_elements w a s = (case perform w a s of (r, s1) \<Rightarrow> (as_elements r, s1))"

definition do_text :: "world \<Rightarrow> action \<Rightarrow> api \<Rightarrow> string result \<times> api" where
  "do_text w a s = (case perform w a s of (r, s1) \<Rightarrow> (as_text r, s1))"

definition do_flag :: "world \<Rightarrow> action \<Rightarrow> api \<Rightarrow> bool result \<times> api" where
  "do_flag w a s = (case perform w a s of (r, s1) \<Rightarrow> (as_flag r, s1))"

definition do_cookies :: "world \<Rightarrow> action \<Rightarrow> api \<Rightarrow> json list result \<times> api" where
  "do_cookies w a s = (case perform w a s of (r, s1) \<Rightarrow> (as_cookies r, s1))"

text \<open>\<open>time.sleep\<close> asks nothing of the page; it is recorded in the trace.\<close>

definition sleep :: "int \<Rightarrow> api \<Rightarrow> api" where
  "sleep n s = s\<lparr>trace := trace s @ [Sleep n]\<rparr>"

definition and_then ::
  "(api \<Rightarrow> 'a result \<times> api) \<Rightarrow> ('a \<Rightarrow> api \<Rightarrow> 'b result \<times> api) \<Rightarrow> api \<Rightarrow> 'b result \<times> api" where
  "and_then m f s = (case m s of (Inl e, s1) \<Rightarrow> (Inl e, s1) | (Inr a, s1) \<Rightarrow> f a s1)"

subsection \<open>Strings\<close>

fun str_split :: "char \<Rightarrow> string \<Rightarrow> string list" where
  "str_split sep [] = [[]]"
| "str_split sep (c # cs) =
     (if c = sep then [] # str_split sep cs
      else (case str_split sep cs of [] \<Rightarrow> [[c]] | l # ls \<Rightarrow> (c # l) # ls))"

fun str_join :: "string \<Rightarrow> string list \<Rightarrow> string" where
  "str_join sep [] = []"
| "str_join sep [x] = x"
| "str_join sep (x # y # ys) = x @ sep @ str_join sep (y # ys)"

definition newline :: char where
  "newline = CHR 0x0A"

subsection \<open>Selectors used by the methods\<close>

definition login_button_css :: string where
  \<open>login_button_css = ''button[data-testid="login-button"]''\<close>

definition send_button_css :: string where
  \<open>send_button_css = ''button[data-testid="send-button"]''\<close>

definition send_button_css_init :: string where
  \<open>send_button_css_init = ''button[data-testid='send-button']''\<close>

definition stop_button_css :: string where
  \<open>stop_button_css = ''button[data-testid="stop-button"]''\<close>

definition assistant_css :: string where
  \<open>assistant_css = ''div[data-message-author-role="assistant"]''\<close>

definition continue_xpath :: string where
  \<open>continue_xpath = ''//button[contains(@class, "btn relative btn-secondary") and contains(., "Continue generating")]''\<close>

definition regenerate_xpath :: string where
  \<open>regenerate_xpath = ''//button[contains(@class, "btn relative btn-primary m-auto") and contains(., "Regenerate")]''\<close>

definition menu_button_xpath :: string where
  \<open>menu_button_xpath = ''//button[@id="radix-:r2i:" and @aria-haspopup="menu" and @aria-expanded="false" and @data-state="closed"]''\<close>

definition delete_item_xpath :: string where
  \<open>delete_item_xpath = ''//div[@role="menuitem" and contains(@class, "text-token-text-error") and contains(text(), "Delete")]''\<close>

definition delete_popup_xpath :: string where
  \<open>delete_popup_xpath = ''//button[@class="btn relative btn-danger" and @as="button"]//div[contains(text(), "Delete")]''\<close>

definition version_4o_xpath :: string where
  \<open>version_4o_xpath = ''//div[contains(text(), "ChatGPT") and span[contains(text(), "4o")]]''\<close>

definition version_35_xpath :: string where
  \<open>version_35_xpath = ''//div[contains(text(), "ChatGPT") and span[contains(text(), "3.5")]]''\<close>

definition gpt_4o_xpath :: string where
  \<open>gpt_4o_xpath = ''//div[contains(text(), "GPT-4o") and div[contains(text(), "Newest and most advanced model")]]''\<close>

definition file_input_xpath :: string where
  \<open>file_input_xpath = ''//input[@type='file' and @multiple and @tabindex='-1' and @class='hidden' and @style='display: none;']''\<close>

definition overlay_xpath :: string where
  \<open>overlay_xpath = ''//div[contains(@class, 'absolute inset-0 flex items-center justify-center bg-black/5 text-white')]''\<close>

subsection \<open>is\_login\<close>

text \<open>
  \<open>find_element\<close> either returns the button or raises; only \<open>NoSuchElementException\<close>
  is caught, and the method returns \<open>button is None\<close>.
\<close>

definition is_login :: "world \<Rightarrow> api \<Rightarrow> bool result \<times> api" where
  "is_login w s =
     (case do_element w (FindElement (ByCss login_button_css)) s of
        (Inr button, s1) \<Rightarrow> (Inr False, s1)
      | (Inl e, s1) \<Rightarrow> (if e = NoSuchElementException then (Inr True, s1) else (Inl e, s1)))"

subsection \<open>click\_regen\<close>

text \<open>The whole body is under a bare \<open>except\<close>: nothing propagates.\<close>

definition click_regen :: "world \<Rightarrow> api \<Rightarrow> unit result \<times> api" where
  "click_regen w s =
     (case do_element w (WaitPresence (ByXPath regenerate_xpath) 5) s of
        (Inl e, s1) \<Rightarrow> (Inr (), s1)
      | (Inr regenerate_button, s1) \<Rightarrow>
          (case do_unit w (Click regenerate_button) s1 of (r, s2) \<Rightarrow> (Inr (), s2)))"

subsection \<open>check\_conditions\<close>

text \<open>
  One round of the \<open>for attempt in range(retries)\<close> loop per \<open>Suc\<close>. The inner
  \<open>try\<close> covers the probe for the control that should be absent, the click on it and
  the sleep; its \<open>except TimeoutException\<close> returns the send button. The outer
  \<open>except TimeoutException\<close> covers the probe for the send button. Any other exception
  leaves the method.
\<close>

fun check_conditions ::
  "world \<Rightarrow> string \<Rightarrow> string \<Rightarrow> nat \<Rightarrow> api \<Rightarrow> element option result \<times> api" where
  "check_conditions w present_css absent_xpath 0 s = (Inr None, s)"
| "check_conditions w present_css absent_xpath (Suc retries) s =
     (case do_element w (WaitPresence (ByCss present_css) (wait_time s)) s of
        (Inl e, s1) \<Rightarrow>
          (if e = TimeoutException then check_conditions w present_css absent_xpath retries s1
           else (Inl e, s1))
      | (Inr send_btn, s1) \<Rightarrow>
          (case do_element w (WaitPresence (ByXPath absent_xpath) 5) s1 of
             (Inl e, s2) \<Rightarrow>
               (if e = TimeoutException then (Inr (Some send_btn), s2) else (Inl e, s2))
           | (Inr contgenerate_button, s2) \<Rightarrow>
               (case do_unit w (Click contgenerate_button) s2 of
                  (Inl e, s3) \<Rightarrow>
                    (if e = TimeoutException then (Inr (Some send_btn), s3) else (Inl e, s3))
                | (Inr u, s3) \<Rightarrow>
                    check_conditions w present_css absent_xpath retries (sleep 1 s3))))"

subsection \<open>send\_request\<close>

text \<open>
  Typing the request: each line, then \<open>Keys.SHIFT, Keys.RETURN\<close>.
\<close>

fun type_lines :: "world \<Rightarrow> element \<Rightarrow> string list \<Rightarrow> api \<Rightarrow> unit result \<times> api" where
  "type_lines w area [] s = (Inr (), s)"
| "type_lines w area (line # lines) s =
     (case do_unit w (SendKeys area [Str line]) s of
        (Inl e, s1) \<Rightarrow> (Inl e, s1)
      | (Inr u, s1) \<Rightarrow>
          (case do_unit w (SendKeys area [SHIFT, RETURN]) s1 of
             (Inl e, s2) \<Rightarrow> (Inl e, s2)
           | (Inr u', s2) \<Rightarrow> type_lines w area lines s2))"

text \<open>
  The \<open>while max_try > 0\<close> loop. The local variable \<open>last_answer\<close> is unbound
  (\<open>None\<close>) until the wait for the assistant messages has returned a list; it becomes an
  element only on the path that returns from inside the loop. The statement after the loop,
  \<open>return last_answer.text\<close>, therefore reads an unbound name (\<open>UnboundLocalError\<close>) or
  asks a list for its \<open>text\<close> (\<open>AttributeError\<close>). The wait for the stop button is
  under a bare \<open>except: pass\<close>; the handler of the outer \<open>try\<close> calls
  \<open>click_regen\<close> and decrements the budget.
\<close>

fun retry_loop :: "world \<Rightarrow> nat \<Rightarrow> element list option \<Rightarrow> api \<Rightarrow> string result \<times> api" where
  "retry_loop w 0 last_answer s =
     (case last_answer of
        None \<Rightarrow> (Inl UnboundLocalError, s)
      | Some els \<Rightarrow> (Inl AttributeError, s))"
| "retry_loop w (Suc max_try) last_answer s =
     (case do_element w (WaitPresence (ByCss stop_button_css) 3) s of
        (stop_button, s1) \<Rightarrow>
          (case check_conditions w send_button_css continue_xpath 4 s1 of
             (Inl ex, s2) \<Rightarrow>
               (case click_regen w s2 of (r, s3) \<Rightarrow> retry_loop w max_try last_answer s3)
           | (Inr send_btn, s2) \<Rightarrow>
               (case do_elements w (WaitAllPresence (ByCss assistant_css) (wait_time s2)) s2 of
                  (Inl ex, s3) \<Rightarrow>
                    (case click_regen w s3 of (r, s4) \<Rightarrow> retry_loop w max_try last_answer s4)
                | (Inr els, s3) \<Rightarrow>
                    (if els = [] then
                       (case click_regen w s3 of
                          (r, s4) \<Rightarrow> retry_loop w max_try (Some els) s4)
                     else do_text w (GetText (last els)) (s3\<lparr>send_button := send_btn\<rparr>)))))"

text \<open>
  The second half of \<open>send_request\<close>: wait for the send button to be clickable, click it
  when it is enabled, then poll for the answer.
\<close>

definition submit_and_poll :: "world \<Rightarrow> api \<Rightarrow> string result \<times> api" where
  "submit_and_poll w =
     and_then (\<lambda>t. do_element w (WaitClickable (ByCss send_button_css) (wait_time t)) t)
       (\<lambda>btn t.
          and_then (do_flag w (IsEnabled btn)) (\<lambda>enabled.
          and_then (if enabled then do_unit w (Click btn) else (\<lambda>t'. (Inr (), t')))
            (\<lambda>u. retry_loop w 3 None))
            (t\<lparr>send_button := Some btn\<rparr>))"

text \<open>
  When \<open>self.prompt_text_area\<close> is falsy the method goes straight to
  \<open>return last_answer.text\<close> with \<open>last_answer\<close> unbound.
\<close>

definition send_request :: "world \<Rightarrow> string \<Rightarrow> api \<Rightarrow> string result \<times> api" where
  "send_request w request s =
     (case prompt_text_area s of
        None \<Rightarrow> (Inl UnboundLocalError, s)
      | Some area \<Rightarrow>
          and_then (do_unit w (Focus area)) (\<lambda>u.
          and_then (do_unit w (Click area)) (\<lambda>u.
          and_then (type_lines w area (str_split newline request)) (\<lambda>u.
            submit_and_poll w))) s)"

subsection \<open>delete\_context\<close>

definition delete_steps :: "world \<Rightarrow> api \<Rightarrow> unit result \<times> api" where
  "delete_steps w =
     and_then (\<lambda>t. do_element w (WaitPresence (ByXPath menu_button_xpath) (wait_time t)) t)
       (\<lambda>button.
     and_then (do_unit w (Click button)) (\<lambda>u.
     and_then (\<lambda>t. do_element w (WaitPresence (ByXPath delete_item_xpath) (wait_time t)) t)
       (\<lambda>delete_menu_item.
     and_then (do_unit w (Click delete_menu_item)) (\<lambda>u.
     and_then (\<lambda>t. do_element w (WaitPresence (ByXPath delete_popup_xpath) (wait_time t)) t)
       (\<lambda>delete_button_popup. do_unit w (Click delete_button_popup))))))"

text \<open>
  The three steps are the body of \<open>try\<close>; \<open>except Exception\<close> prints and goes on, and
  the flag is cleared after the \<open>try\<close> statement.
\<close>

definition delete_context :: "world \<Rightarrow> api \<Rightarrow> unit result \<times> api" where
  "delete_context w s =
     (case delete_steps w s of (r, s1) \<Rightarrow> (Inr (), s1\<lparr>is_context_created := False\<rparr>))"

definition del_api :: "world \<Rightarrow> api \<Rightarrow> unit result \<times> api" where
  "del_api w s = (if is_context_created s then delete_context w s else (Inr (), s))"

subsection \<open>check\_chatgpt4o\<close>

definition check_chatgpt4o :: "world \<Rightarrow> api \<Rightarrow> bool result \<times> api" where
  "check_chatgpt4o w s =
     (case do_element w (WaitPresence (ByXPath version_4o_xpath) 5) s of
        (Inr v, s1) \<Rightarrow> (Inr True, s1)
      | (Inl ex, s1) \<Rightarrow>
          (case do_element w (WaitPresence (ByXPath version_35_xpath) 1) s1 of
             (Inl ex', s2) \<Rightarrow> (Inr False, s2)
           | (Inr chatgpt_version, s2) \<Rightarrow>
               (case do_unit w (Click chatgpt_version) s2 of
                  (Inl e, s3) \<Rightarrow> (Inl e, s3)
                | (Inr u, s3) \<Rightarrow>
                    (case do_element w (WaitPresence (ByXPath gpt_4o_xpath) (wait_time s3)) s3 of
                       (Inl ex'', s4) \<Rightarrow> (Inr False, s4)
                     | (Inr gpt_4o, s4) \<Rightarrow>
                         (case do_unit w (Click gpt_4o) s4 of
                            (Inl e, s5) \<Rightarrow> (Inl e, s5)
                          | (Inr u', s5) \<Rightarrow> (Inr True, s5))))))"

subsection \<open>refresh and upload\_file\<close>

definition refresh :: "world \<Rightarrow> api \<Rightarrow> unit result \<times> api" where
  "refresh w =
     and_then (do_unit w Refresh) (\<lambda>u.
     and_then (\<lambda>t. do_element w (WaitPresence (ById ''prompt-textarea'') (wait_time t)) t)
       (\<lambda>area t.
          and_then (do_element w (FindElement (ByCss send_button_css)))
            (\<lambda>btn t'. (Inr (), t'\<lparr>send_button := Some btn\<rparr>))
            (t\<lparr>prompt_text_area := Some area\<rparr>)))"

datatype file_paths = PathList "string list" | PathStr string

definition upload_keys :: "file_paths \<Rightarrow> string" where
  "upload_keys fp = (case fp of PathList ps \<Rightarrow> str_join [newline] ps | PathStr p \<Rightarrow> p)"

definition upload_steps :: "world \<Rightarrow> file_paths \<Rightarrow> api \<Rightarrow> unit result \<times> api" where
  "upload_steps w fp =
     and_then (do_element w (WaitPresence (ByXPath file_input_xpath) 10)) (\<lambda>file_upload.
     and_then (do_unit w (SendKeys file_upload [Str (upload_keys fp)])) (\<lambda>u.
       do_unit w (WaitInvisible (ByXPath overlay_xpath) 30)))"

definition upload_file :: "world \<Rightarrow> file_paths \<Rightarrow> api \<Rightarrow> bool result \<times> api" where
  "upload_file w fp s =
     (if \<not> use_4o s then (Inr False, s)
      else (case refresh w s of
              (Inl e, s1) \<Rightarrow> (Inl e, s1)
            | (Inr u, s1) \<Rightarrow>
                (case upload_steps w fp s1 of
                   (Inl ex, s2) \<Rightarrow> (Inr False, s2)
                 | (Inr u', s2) \<Rightarrow> (Inr True, s2))))"

subsection \<open>manual\_login\<close>

definition cookies_pkl :: string where
  "cookies_pkl = ''cookies.pkl''"

definition manual_login :: "world \<Rightarrow> api \<Rightarrow> unit result \<times> api" where
  "manual_login w =
     and_then (do_unit w (Input ''Please log in manually and press Enter to continue...''))
       (\<lambda>u.
     and_then (do_cookies w GetCookies) (\<lambda>cookies_list t.
       (case write_file (fs t) cookies_pkl (json_dump w cookies_list) of
          Inl e \<Rightarrow> (Inl e, t)
        | Inr f \<Rightarrow> (Inr (), t\<lparr>fs := f\<rparr>))))"

subsection \<open>The constructor\<close>

text \<open>
  The configuration file is read before anything else; \<open>config\<close> holds the values read,
  with \<open>None\<close> for the two options that have a \<open>fallback\<close>.
\<close>

definition headless_mode :: "config \<Rightarrow> bool" where
  "headless_mode cfg = (case cfg_headless_mode cfg of None \<Rightarrow> False | Some b \<Rightarrow> b)"

definition cookies_path :: "config \<Rightarrow> string" where
  "cookies_path cfg = (case cfg_cookies_path cfg of None \<Rightarrow> [] | Some p \<Rightarrow> p)"

definition headless_arguments :: "string list" where
  \<open>headless_arguments =
     [''--headless=new'', ''--disable-gpu'', ''--no-sandbox'', ''--disable-dev-shm-usage'',
      ''--disable-blink-features=AutomationControlled'', ''--disable-infobars'',
      ''--window-size=1920x1080'', ''--start-maximized'',
      ''--user-agent=Mozilla/5.0 (Windows NT 10.0; Win64; x64) AppleWebKit/537.36 (KHTML, like Gecko) Chrome/91.0.4472.124 Safari/537.36'',
      ''--disable-extensions'', ''--proxy-server='direct://'' @ [CHR 0x27],
      ''--proxy-bypass-list=*'',
      ''--disable-dev-shm-usage'', ''--disable-accelerated-2d-canvas'',
      ''--disable-accelerated-jpeg-decoding'', ''--disable-accelerated-mjpeg-decoding'',
      ''--disable-accelerated-video-decode'', ''--disable-accelerated-video-encode'']\<close>

definition chrome_options :: "config \<Rightarrow> string list" where
  "chrome_options cfg =
     (if headless_mode cfg then headless_arguments else []) @
     [''--user-data-dir='' @ cfg_user_data_dir cfg,
      ''--profile-directory='' @ cfg_profile_directory cfg]"

text \<open>Launching the browser and opening the site (up to \<open>self.driver.get(self.url)\<close>).\<close>

definition open_browser :: "world \<Rightarrow> config \<Rightarrow> api \<Rightarrow> unit result \<times> api" where
  "open_browser w cfg s =
     and_then (do_unit w (MakeDirs (cfg_user_data_dir cfg))) (\<lambda>u t.
       and_then (do_unit w (Launch (chrome_options cfg))) (\<lambda>u'.
         do_unit w (Get (cfg_url cfg)))
         (t\<lparr>driver_path := cfg_driver_path cfg, url := cfg_url cfg,
            wait_time := cfg_wait_time cfg\<rparr>))
       (s\<lparr>is_context_created := False\<rparr>)"

text \<open>
  \<open>json.dumps(default_cookies)\<close> with \<open>default_cookies = []\<close> is the text \<open>[]\<close>.
\<close>

definition default_cookies_text :: string where
  "default_cookies_text = ''[]''"

text \<open>
  The cookies file: created when \<open>os.path.exists\<close> is false, then opened for reading and
  parsed.
\<close>

definition load_cookies :: "world \<Rightarrow> string \<Rightarrow> api \<Rightarrow> json result \<times> api" where
  "load_cookies w path s =
     (case (if \<not> path_exists (fs s) path
            then (case write_file (fs s) path default_cookies_text of
                    Inl e \<Rightarrow> (Inl e, s)
                  | Inr f \<Rightarrow> (Inr (), s\<lparr>fs := f\<rparr>))
            else (Inr (), s)) of
        (Inl e, s1) \<Rightarrow> (Inl e, s1)
      | (Inr u, s1) \<Rightarrow>
          (case read_file (fs s1) path of
             Inl e \<Rightarrow> (Inl e, s1)
           | Inr txt \<Rightarrow>
               (case json_loads w txt of
                  Inl e \<Rightarrow> (Inl e, s1)
                | Inr cookies_list \<Rightarrow> (Inr cookies_list, s1))))"

text \<open>
  What \<open>for cookie in cookies_list\<close> iterates over: the items of a list, the keys of a
  dict, the characters of a string; anything else is not iterable.
\<close>

definition py_iter :: "json \<Rightarrow> json list result" where
  "py_iter j =
     (case j of
        JArray xs \<Rightarrow> Inr xs
      | JObject kvs \<Rightarrow> Inr (map (\<lambda>kv. JString (fst kv)) kvs)
      | JString cs \<Rightarrow> Inr (map (\<lambda>c. JString [c]) cs)
      | _ \<Rightarrow> Inl TypeError)"

definition pop_domain :: "(string \<times> json) list \<Rightarrow> (string \<times> json) list" where
  "pop_domain kvs = filter (\<lambda>kv. fst kv \<noteq> ''domain'') kvs"

text \<open>
  \<open>cookie.pop('domain', None)\<close> works on a dict; a list rejects the second argument and
  any other value has no \<open>pop\<close>.
\<close>

fun add_cookies :: "world \<Rightarrow> json list \<Rightarrow> api \<Rightarrow> unit result \<times> api" where
  "add_cookies w [] s = (Inr (), s)"
| "add_cookies w (cookie # rest) s =
     (case cookie of
        JObject kvs \<Rightarrow>
          (case do_unit w (AddCookie (JObject (pop_domain kvs))) s of
             (Inl e, s1) \<Rightarrow> (Inl e, s1)
           | (Inr u, s1) \<Rightarrow> add_cookies w rest s1)
      | JArray xs \<Rightarrow> (Inl TypeError, s)
      | _ \<Rightarrow> (Inl AttributeError, s))"

definition inject_cookies :: "world \<Rightarrow> string \<Rightarrow> api \<Rightarrow> unit result \<times> api" where
  "inject_cookies w path =
     and_then (load_cookies w path) (\<lambda>cookies_list t.
       (case py_iter cookies_list of
          Inl e \<Rightarrow> (Inl e, t)
        | Inr cookies \<Rightarrow> add_cookies w cookies t))"

text \<open>
  \<open>self.use_4o = False\<close>, then \<open>if use_chatgpt4o and self.check_chatgpt4o()\<close>.
\<close>

definition select_model :: "world \<Rightarrow> config \<Rightarrow> api \<Rightarrow> unit result \<times> api" where
  "select_model w cfg s =
     (if cfg_use_chatgpt4o cfg
      then and_then (check_chatgpt4o w)
             (\<lambda>ok t. (Inr (), if ok then t\<lparr>use_4o := True\<rparr> else t))
             (s\<lparr>use_4o := False\<rparr>)
      else (Inr (), s\<lparr>use_4o := False\<rparr>))"

definition locate_controls :: "world \<Rightarrow> api \<Rightarrow> unit result \<times> api" where
  "locate_controls w =
     and_then (\<lambda>t. do_element w (WaitPresence (ById ''prompt-textarea'') (wait_time t)) t)
       (\<lambda>area t.
          and_then (do_element w (FindElement (ByCss send_button_css_init)))
            (\<lambda>btn t'. (Inr (), t'\<lparr>send_button := Some btn\<rparr>))
            (t\<lparr>prompt_text_area := Some area\<rparr>))"

definition opening_message :: "string \<Rightarrow> string" where
  "opening_message context_content = str_join [newline] (str_split (CHR ''@'') context_content)"

definition send_context :: "world \<Rightarrow> config \<Rightarrow> api \<Rightarrow> unit result \<times> api" where
  "send_context w cfg s =
     (if cfg_context_content cfg \<noteq> []
      then and_then (send_request w (opening_message (cfg_context_content cfg)))
             (\<lambda>answer t. (Inr (), t)) s
      else (Inr (), s))"

definition init :: "world \<Rightarrow> config \<Rightarrow> filesystem \<Rightarrow> unit result \<times> api" where
  "init w cfg f =
     and_then (open_browser w cfg) (\<lambda>u.
     and_then (inject_cookies w (cookies_path cfg)) (\<lambda>u.
     and_then (if cfg_manual_login cfg then manual_login w else (\<lambda>t. (Inr (), t))) (\<lambda>u.
     and_then (select_model w cfg) (\<lambda>u.
     and_then (locate_controls w) (\<lambda>u.
     and_then (send_context w cfg) (\<lambda>u t.
       (Inr (), t\<lparr>is_context_created := True\<rparr>)))))))
     (new_api f)"

subsection \<open>Calling the methods of an initialised object\<close>

datatype call =
    IsLogin
  | ManualLogin
  | DeleteContext
  | CheckChatgpt4o
  | RefreshPage
  | UploadFile file_paths
  | CheckConditions string string nat
  | SendRequest string
  | ClickRegen

fun call_method :: "world \<Rightarrow> call \<Rightarrow> api \<Rightarrow> api" where
  "call_method w IsLogin s = snd (is_login w s)"
| "call_method w ManualLogin s = snd (manual_login w s)"
| "call_method w DeleteContext s = snd (delete_context w s)"
| "call_method w CheckChatgpt4o s = snd (check_chatgpt4o w s)"
| "call_method w RefreshPage s = snd (refresh w s)"
| "call_method w (UploadFile fp) s = snd (upload_file w fp s)"
| "call_method w (CheckConditions present_css absent_xpath retries) s =
     snd (check_conditions w present_css absent_xpath retries s)"
| "call_method w (SendRequest request) s = snd (send_request w request s)"
| "call_method w ClickRegen s = snd (click_regen w s)"

fun call_methods :: "world \<Rightarrow> call list \<Rightarrow> api \<Rightarrow> api" where
  "call_methods w [] s = s"
| "call_methods w (c # cs) s = call_methods w cs (call_method w c s)"

section \<open>Observations on runs\<close>

text \<open>The actions a run has added to the trace of the state it started in.\<close>

definition new_actions :: "api \<Rightarrow> api \<Rightarrow> action list" where
  "new_actions s t = drop (length (trace s)) (trace t)"

fun is_add_cookie :: "action \<Rightarrow> bool" where
  "is_add_cookie (AddCookie c) = True"
| "is_add_cookie a = False"



fun is_wait_for :: "locator \<Rightarrow> action \<Rightarrow> bool" where
  "is_wait_for l (WaitPresence l' t) = (l = l')"
| "is_wait_for l a = False"

text \<open>The actions of the polling loops: waits, clicks, sleeps and reading a text.\<close>

fun polling :: "action \<Rightarrow> bool" where
  "polling (WaitPresence l t) = True"
| "polling (WaitAllPresence l t) = True"
| "polling (Click e) = True"
| "polling (Sleep n) = True"
| "polling (GetText e) = True"
| "polling a = False"

text \<open>A cookie handed to \<open>add_cookie\<close> is a dict without the key \<open>domain\<close>.\<close>

fun domain_free :: "action \<Rightarrow> bool" where
  "domain_free (AddCookie c) =
     (case c of JObject kvs \<Rightarrow> ''domain'' \<notin> fst ` set kvs | _ \<Rightarrow> False)"
| "domain_free a = True"

text \<open>
  \<open>keeps P s t\<close>: going from \<open>s\<close> to \<open>t\<close> leaves \<open>use_4o\<close> alone and only appends
  actions that satisfy \<open>P\<close>; \<open>adds_only\<close> is the part about the trace.
\<close>

definition adds_only :: "(action \<Rightarrow> bool) \<Rightarrow> api \<Rightarrow> api \<Rightarrow> bool" where
  "adds_only P s t = (\<exists>acts. trace t = trace s @ acts \<and> list_all P acts)"

definition keeps :: "(action \<Rightarrow> bool) \<Rightarrow> api \<Rightarrow> api \<Rightarrow> bool" where
  "keeps P s t = (use_4o t = use_4o s \<and> adds_only P s t)"


section \<open>Hypotheses on the page and example runs\<close>

definition never_found :: "world \<Rightarrow> string \<Rightarrow> int \<Rightarrow> bool" where
  "never_found w xpath t = (\<forall>tr e. page w tr (WaitPresence (ByXPath xpath) t) \<noteq> Elem e)"


definition example_cookies_text :: string where
  \<open>example_cookies_text = ''[{"name": "session", "domain": "chatgpt.com"}]''\<close>

definition example_cookies :: json where
  "example_cookies =
     JArray [JObject [(''name'', JString ''session''), (''domain'', JString ''chatgpt.com'')]]"

definition example_loads :: "string \<Rightarrow> json result" where
  "example_loads txt =
     (if txt = ''[]'' then Inr (JArray [])
      else if txt = example_cookies_text then Inr example_cookies
      else Inl JSONDecodeError)"

definition example_dump :: "json list \<Rightarrow> string" where
  "example_dump cs = (if cs = [] then ''[]'' else ''[...]'')"

definition blank_page :: "action list \<Rightarrow> action \<Rightarrow> reply" where
  "blank_page tr a =
     (case a of
        WaitPresence l t \<Rightarrow> Raise TimeoutException
      | WaitAllPresence l t \<Rightarrow> Raise TimeoutException
      | WaitClickable l t \<Rightarrow> Raise TimeoutException
      | FindElement l \<Rightarrow> Raise NoSuchElementException
      | GetCookies \<Rightarrow> Cookies []
      | IsEnabled e \<Rightarrow> Flag False
      | GetText e \<Rightarrow> Text []
      | _ \<Rightarrow> Done)"

definition blank_world :: world where
  "blank_world = \<lparr>page = blank_page, json_loads = example_loads, json_dump = example_dump\<rparr>"

definition example_config :: config where
  "example_config =
     \<lparr>cfg_user_data_dir = ''profile'', cfg_profile_directory = ''Default'',
      cfg_driver_path = ''chromedriver'', cfg_url = ''https://chatgpt.com'',
      cfg_wait_time = 10, cfg_use_chatgpt4o = True, cfg_manual_login = False,
      cfg_context_content = ''Hello@How are you?'', cfg_headless_mode = None,
      cfg_cookies_path = Some ''cookies.json''\<rparr>"

definition example_fs :: filesystem where
  "example_fs =
     \<lparr>contents = [''cookies.json'' \<mapsto> example_cookies_text], can_create = (\<lambda>p. True)\<rparr>"

definition empty_fs :: filesystem where
  "empty_fs = \<lparr>contents = Map.empty, can_create = (\<lambda>p. True)\<rparr>"

definition ready_api :: api where
  "ready_api = (new_api empty_fs)\<lparr>wait_time := 10, prompt_text_area := Some 3,
     send_button := Some 4, is_context_created := True\<rparr>"


definition default_config :: config where
  "default_config = example_config\<lparr>cfg_cookies_path := None\<rparr>"








fun is_get_text :: "action \<Rightarrow> bool" where
  "is_get_text (GetText e) = True"
| "is_get_text a = False"

definition regen_attempts :: "action list \<Rightarrow> nat" where
  "regen_attempts acts = length (filter (is_wait_for (ByXPath regenerate_xpath)) acts)"

definition answer_read :: "action list \<Rightarrow> bool" where
  "answer_read acts = list_ex is_get_text acts"

definition stuck_page :: "action list \<Rightarrow> action \<Rightarrow> reply" where
  "stuck_page tr a =
     (case a of
        WaitPresence l t \<Rightarrow> (if l = ByCss send_button_css then Elem 4 else Raise TimeoutException)
      | WaitAllPresence l t \<Rightarrow> Raise TimeoutException
      | WaitClickable l t \<Rightarrow> Elem 4
      | IsEnabled e \<Rightarrow> Flag True
      | _ \<Rightarrow> Done)"

definition stuck_world :: world where
  "stuck_world = \<lparr>page = stuck_page, json_loads = example_loads, json_dump = example_dump\<rparr>"

text \<open>The two exceptions of \<open>return last_answer.text\<close> after the loop.\<close>

definition raises_unbound :: "string result \<Rightarrow> bool" where
  "raises_unbound r = (r = Inl UnboundLocalError \<or> r = Inl AttributeError)"

text \<open>A run that returns a string has read the text of an answer on the way.\<close>

definition reads_first :: "(api \<Rightarrow> string result \<times> api) \<Rightarrow> bool" where
  "reads_first m =
     (\<forall>s answer t. m s = (Inr answer, t) \<longrightarrow>
        (\<exists>acts. trace t = trace s @ acts \<and> answer_read acts))"

section \<open>What the methods leave alone\<close>

lemmas do_defs = do_unit_def do_element_def do_elements_def do_text_def do_flag_def
  do_cookies_def perform_def

lemma keeps_refl [simp]: "keeps P s s"
  by (simp add: keeps_def adds_only_def)

lemma keeps_trans: "keeps P s t \<Longrightarrow> keeps P t u \<Longrightarrow> keeps P s u"
  by (auto simp: keeps_def adds_only_def)

lemma keeps_append: "list_all P acts \<Longrightarrow> keeps P s (s\<lparr>trace := trace s @ acts\<rparr>)"
  by (simp add: keeps_def adds_only_def)

lemma keeps_update [simp]:
  "keeps P s (t\<lparr>send_button := b\<rparr>) = keeps P s t"
  "keeps P s (t\<lparr>prompt_text_area := a\<rparr>) = keeps P s t"
  "keeps P s (t\<lparr>fs := f\<rparr>) = keeps P s t"
  "keeps P s (t\<lparr>is_context_created := c\<rparr>) = keeps P s t"
  "keeps P s (t\<lparr>driver_path := d\<rparr>) = keeps P s t"
  "keeps P s (t\<lparr>url := d\<rparr>) = keeps P s t"
  "keeps P s (t\<lparr>wait_time := n\<rparr>) = keeps P s t"
  by (simp_all add: keeps_def adds_only_def)

lemma keeps_update_left [simp]:
  "keeps P (t\<lparr>send_button := b\<rparr>) s = keeps P t s"
  "keeps P (t\<lparr>prompt_text_area := a\<rparr>) s = keeps P t s"
  "keeps P (t\<lparr>fs := f\<rparr>) s = keeps P t s"
  "keeps P (t\<lparr>is_context_created := c\<rparr>) s = keeps P t s"
  "keeps P (t\<lparr>driver_path := d\<rparr>) s = keeps P t s"
  "keeps P (t\<lparr>url := d\<rparr>) s = keeps P t s"
  "keeps P (t\<lparr>wait_time := n\<rparr>) s = keeps P t s"
  by (simp_all add: keeps_def adds_only_def)

lemma do_unit_keeps: "P a \<Longrightarrow> keeps P s (snd (do_unit w a s))"
  by (simp add: do_defs keeps_def adds_only_def)

lemma do_element_keeps: "P a \<Longrightarrow> keeps P s (snd (do_element w a s))"
  by (simp add: do_defs keeps_def adds_only_def)

lemma do_elements_keeps: "P a \<Longrightarrow> keeps P s (snd (do_elements w a s))"
  by (simp add: do_defs keeps_def adds_only_def)

lemma do_text_keeps: "P a \<Longrightarrow> keeps P s (snd (do_text w a s))"
  by (simp add: do_defs keeps_def adds_only_def)

lemma do_flag_keeps: "P a \<Longrightarrow> keeps P s (snd (do_flag w a s))"
  by (simp add: do_defs keeps_def adds_only_def)

lemma do_cookies_keeps: "P a \<Longrightarrow> keeps P s (snd (do_cookies w a s))"
  by (simp add: do_defs keeps_def adds_only_def)

lemma and_then_keeps:
  assumes "\<And>t. keeps P t (snd (m t))"
    and "\<And>a t. keeps P t (snd (f a t))"
    and "keeps P s s0"
  shows "keeps P s (snd (and_then m f s0))"
proof (cases "m s0")
  case (Pair r s1)
  have "keeps P s0 s1" using assms(1)[of s0] Pair by simp
  with assms(3) have 1: "keeps P s s1" by (rule keeps_trans)
  show ?thesis
  proof (cases r)
    case (Inl e)
    then show ?thesis using Pair 1 by (simp add: and_then_def)
  next
    case (Inr a)
    have "keeps P s1 (snd (f a s1))" by (rule assms(2))
    with 1 have "keeps P s (snd (f a s1))" by (rule keeps_trans)
    then show ?thesis using Pair Inr by (simp add: and_then_def)
  qed
qed

lemmas keeps_intros = and_then_keeps do_unit_keeps do_element_keeps do_elements_keeps
  do_text_keeps do_flag_keeps do_cookies_keeps

lemma click_regen_keeps:
  assumes "\<And>a. polling a \<Longrightarrow> P a"
  shows "keeps P s (snd (click_regen w s))"
  unfolding click_regen_def do_defs keeps_def adds_only_def
  by (auto split: prod.splits sum.splits simp: assms)

lemma check_conditions_keeps:
  assumes "\<And>a. polling a \<Longrightarrow> P a"
  shows "keeps P s (snd (check_conditions w c x n s))"
proof (induction n arbitrary: s)
  case 0
  then show ?case by simp
next
  case (Suc n)
  show ?case
    apply (simp add: do_defs sleep_def split: prod.splits sum.splits)
    apply (intro conjI impI allI)
    apply (auto intro!: keeps_trans[OF keeps_append Suc] keeps_append simp: assms)
    done
qed

lemma type_lines_keeps:
  assumes "\<And>e ks. P (SendKeys e ks)"
  shows "keeps P s (snd (type_lines w area ls s))"
proof (induction ls arbitrary: s)
  case Nil
  then show ?case by simp
next
  case (Cons l ls)
  show ?case
    apply (simp add: do_defs split: prod.splits sum.splits)
    apply (intro conjI impI allI)
    apply (auto intro!: keeps_trans[OF keeps_append Cons] keeps_append simp: assms)
    done
qed

lemma retry_loop_keeps:
  assumes P: "\<And>a. polling a \<Longrightarrow> P a"
  shows "keeps P s (snd (retry_loop w n la s))"
proof (induction n arbitrary: s la)
  case 0
  then show ?case by (simp split: option.splits)
next
  case (Suc n)
  have regen: "keeps P t (snd (retry_loop w n la' (snd (click_regen w t))))" for t la'
    by (rule keeps_trans[OF click_regen_keeps[OF P] Suc])
  obtain r0 s1 where st: "do_element w (WaitPresence (ByCss stop_button_css) 3) s = (r0, s1)"
    by (cases "do_element w (WaitPresence (ByCss stop_button_css) 3) s")
  have a1: "keeps P s s1"
    using do_element_keeps[of P "WaitPresence (ByCss stop_button_css) 3" s w] st P by simp
  obtain r1 s2 where cc: "check_conditions w send_button_css continue_xpath 4 s1 = (r1, s2)"
    by (cases "check_conditions w send_button_css continue_xpath 4 s1")
  have a2: "keeps P s s2"
    using check_conditions_keeps[OF P, where s = s1 and w = w and c = send_button_css and x = continue_xpath and n = 4] cc a1
    by (auto intro: keeps_trans)
  show ?case
  proof (cases r1)
    case (Inl ex)
    then show ?thesis
      using st cc keeps_trans[OF a2 regen[of s2 la]] by (auto split: prod.splits)
  next
    case (Inr send_btn)
    obtain r2 s3 where
      wa: "do_elements w (WaitAllPresence (ByCss assistant_css) (wait_time s2)) s2 = (r2, s3)"
      by (cases "do_elements w (WaitAllPresence (ByCss assistant_css) (wait_time s2)) s2")
    have a3: "keeps P s s3"
      using do_elements_keeps[of P "WaitAllPresence (ByCss assistant_css) (wait_time s2)" s2 w]
        wa a2 P by (auto intro: keeps_trans)
    have a4: "keeps P s (snd (do_text w (GetText e) (s3\<lparr>send_button := b\<rparr>)))" for e b
      using keeps_trans[OF a3, of "snd (do_text w (GetText e) (s3\<lparr>send_button := b\<rparr>))"]
        do_text_keeps[of P "GetText e" "s3\<lparr>send_button := b\<rparr>" w] P
      by simp
    show ?thesis
      using st cc Inr wa keeps_trans[OF a3 regen[of s3]] a4
      by (auto split: prod.splits sum.splits)
  qed
qed

lemma polling_not_add_cookie: "polling a \<Longrightarrow> \<not> is_add_cookie a"
  by (cases a) simp_all

lemma send_request_keeps:
  assumes P: "\<And>a. \<not> is_add_cookie a \<Longrightarrow> P a"
  shows "keeps P s (snd (send_request w request s))"
proof -
  have Q: "polling a \<Longrightarrow> P a" for a
    by (rule P) (rule polling_not_add_cookie)
  have "keeps P t (snd (submit_and_poll w t))" for t
    unfolding submit_and_poll_def
    by (auto intro!: keeps_intros retry_loop_keeps simp: P Q)
  then show ?thesis
    unfolding send_request_def
    by (auto split: option.splits intro!: keeps_intros type_lines_keeps simp: P)
qed

lemma is_login_keeps:
  assumes P: "\<And>a. \<not> is_add_cookie a \<Longrightarrow> P a"
  shows "keeps P s (snd (is_login w s))"
  unfolding is_login_def do_defs keeps_def adds_only_def
  by (auto split: prod.splits sum.splits simp: P)

lemma delete_context_keeps:
  assumes P: "\<And>a. \<not> is_add_cookie a \<Longrightarrow> P a"
  shows "keeps P s (snd (delete_context w s))"
proof -
  have "keeps P s (snd (delete_steps w s))"
    unfolding delete_steps_def
    by (auto intro!: keeps_intros simp: P)
  then show ?thesis
    by (auto simp: delete_context_def split: prod.splits)
qed

lemma check_chatgpt4o_keeps:
  assumes P: "\<And>a. \<not> is_add_cookie a \<Longrightarrow> P a"
  shows "keeps P s (snd (check_chatgpt4o w s))"
  unfolding check_chatgpt4o_def do_defs keeps_def adds_only_def
  by (auto split: prod.splits sum.splits simp: P)

lemma refresh_keeps:
  assumes P: "\<And>a. \<not> is_add_cookie a \<Longrightarrow> P a"
  shows "keeps P s (snd (refresh w s))"
  unfolding refresh_def
  by (auto intro!: keeps_intros simp: P)

lemma upload_file_keeps:
  assumes P: "\<And>a. \<not> is_add_cookie a \<Longrightarrow> P a"
  shows "keeps P s (snd (upload_file w fp s))"
proof -
  have 1: "keeps P t (snd (upload_steps w fp t))" for t
    unfolding upload_steps_def
    by (auto intro!: keeps_intros simp: P)
  have 2: "keeps P s (snd (refresh w s))"
    by (rule refresh_keeps) (rule P)
  show ?thesis
    using 2 keeps_trans[OF 2 1[of "snd (refresh w s)"]]
    by (auto simp: upload_file_def split: prod.splits sum.splits)
qed

lemma manual_login_keeps:
  assumes P: "\<And>a. \<not> is_add_cookie a \<Longrightarrow> P a"
  shows "keeps P s (snd (manual_login w s))"
  unfolding manual_login_def
  by (auto split: sum.splits intro!: keeps_intros simp: P)

lemma locate_controls_keeps:
  assumes P: "\<And>a. \<not> is_add_cookie a \<Longrightarrow> P a"
  shows "keeps P s (snd (locate_controls w s))"
  unfolding locate_controls_def
  by (auto intro!: keeps_intros simp: P)

lemma send_context_keeps:
  assumes P: "\<And>a. \<not> is_add_cookie a \<Longrightarrow> P a"
  shows "keeps P s (snd (send_context w cfg s))"
  unfolding send_context_def
  by (auto intro!: keeps_intros send_request_keeps simp: P)

lemma open_browser_keeps:
  assumes P: "\<And>a. \<not> is_add_cookie a \<Longrightarrow> P a"
  shows "keeps P s (snd (open_browser w cfg s))"
  unfolding open_browser_def
  by (auto intro!: keeps_intros simp: P)

lemma call_method_keeps:
  assumes P: "\<And>a. \<not> is_add_cookie a \<Longrightarrow> P a"
  shows "keeps P s (call_method w c s)"
proof -
  have Q: "polling a \<Longrightarrow> P a" for a
    by (rule P) (rule polling_not_add_cookie)
  show ?thesis
    by (cases c)
      (simp_all add: is_login_keeps manual_login_keeps delete_context_keeps
        check_chatgpt4o_keeps refresh_keeps upload_file_keeps check_conditions_keeps
        send_request_keeps click_regen_keeps P Q)
qed

lemma call_methods_keeps:
  assumes P: "\<And>a. \<not> is_add_cookie a \<Longrightarrow> P a"
  shows "keeps P s (call_methods w cs s)"
proof (induction cs arbitrary: s)
  case Nil
  then show ?case by simp
next
  case (Cons c cs)
  show ?case
    using keeps_trans[OF call_method_keeps[OF P, where s = s and w = w and c = c] Cons]
    by simp
qed

lemma domain_free_other: "\<not> is_add_cookie a \<Longrightarrow> domain_free a"
  by (cases a) simp_all

lemma pop_domain_free: "''domain'' \<notin> fst ` set (pop_domain kvs)"
  by (auto simp: pop_domain_def)

lemma add_cookies_keeps: "keeps domain_free s (snd (add_cookies w cs s))"
proof (induction cs arbitrary: s)
  case Nil
  then show ?case by simp
next
  case (Cons c cs)
  show ?case
    apply (simp add: do_defs split: json.splits prod.splits sum.splits)
    apply (intro conjI impI allI)
    apply (auto intro!: keeps_trans[OF keeps_append Cons] keeps_append
        simp: pop_domain_free)
    done
qed

lemma load_cookies_keeps: "keeps P s (snd (load_cookies w p s))"
  by (simp add: load_cookies_def write_file_def split: sum.splits)

lemma inject_cookies_keeps: "keeps domain_free s (snd (inject_cookies w p s))"
  unfolding inject_cookies_def
  by (auto split: sum.splits intro!: keeps_intros add_cookies_keeps load_cookies_keeps)

lemma keeps_adds_only: "keeps P s t \<Longrightarrow> adds_only P s t"
  by (simp add: keeps_def)

lemma adds_only_trans: "adds_only P s t \<Longrightarrow> adds_only P t u \<Longrightarrow> adds_only P s u"
  by (auto simp: adds_only_def)

lemma and_then_adds:
  assumes "\<And>t. adds_only P t (snd (m t))"
    and "\<And>a t. adds_only P t (snd (f a t))"
  shows "adds_only P s (snd (and_then m f s))"
proof (cases "m s")
  case (Pair r s1)
  have 1: "adds_only P s s1" using assms(1)[of s] Pair by simp
  show ?thesis
  proof (cases r)
    case (Inl e)
    then show ?thesis using Pair 1 by (simp add: and_then_def)
  next
    case (Inr a)
    have "adds_only P s1 (snd (f a s1))" by (rule assms(2))
    with 1 have "adds_only P s (snd (f a s1))" by (rule adds_only_trans)
    then show ?thesis using Pair Inr by (simp add: and_then_def)
  qed
qed

lemma select_model_adds: "adds_only domain_free s (snd (select_model w cfg s))"
proof -
  have "adds_only domain_free (s\<lparr>use_4o := False\<rparr>)
          (snd (check_chatgpt4o w (s\<lparr>use_4o := False\<rparr>)))"
    by (rule keeps_adds_only[OF check_chatgpt4o_keeps]) (rule domain_free_other)
  then show ?thesis
    by (cases "check_chatgpt4o w (s\<lparr>use_4o := False\<rparr>)")
      (auto simp: select_model_def and_then_def adds_only_def split: sum.splits)
qed

lemma login_phase_adds:
  "adds_only domain_free t (snd ((if b then manual_login w else (\<lambda>t. (Inr (), t))) t))"
  using keeps_adds_only[OF manual_login_keeps[of domain_free t w]]
  by (simp add: adds_only_def domain_free_other)

lemma init_adds: "adds_only domain_free (new_api f) (snd (init w cfg f))"
  unfolding init_def
  by (intro and_then_adds select_model_adds login_phase_adds
      keeps_adds_only[OF open_browser_keeps] keeps_adds_only[OF inject_cookies_keeps]
      keeps_adds_only[OF locate_controls_keeps]
      keeps_adds_only[OF send_context_keeps] domain_free_other)
    (auto simp: adds_only_def)

lemmas eval_defs = init_def and_then_def open_browser_def inject_cookies_def load_cookies_def
  select_model_def locate_controls_def send_context_def manual_login_def check_chatgpt4o_def
  do_defs as_unit_def as_element_def as_elements_def as_text_def as_flag_def as_cookies_def
  path_exists_def write_file_def read_file_def writable_def py_iter_def pop_domain_def
  new_api_def cookies_path_def headless_mode_def chrome_options_def

text \<open>The steps of \<open>delete_context\<close> do fail on a page without the menu.\<close>

lemma delete_steps_can_fail:
  "fst (delete_steps blank_world ready_api) = Inl TimeoutException \<and>
   fst (delete_context blank_world ready_api) = Inr ()"
  by (simp add: delete_context_def delete_steps_def and_then_def do_defs as_element_def
      blank_world_def blank_page_def split: prod.splits)

text \<open>The empty path: nothing exists there and nothing can be opened there.\<close>

lemma inject_cookies_empty_path: "inject_cookies w [] s = (Inl OSError, s)"
  by (simp add: inject_cookies_def and_then_def load_cookies_def path_exists_def
      write_file_def writable_def)

text \<open>When neither model control is found, \<open>use_4o\<close> stays false.\<close>

lemma as_element_not_found: "\<forall>e. r \<noteq> Elem e \<Longrightarrow> \<exists>x. as_element r = Inl x"
  by (cases r) (simp_all add: as_element_def)

lemma check_chatgpt4o_not_found:
  assumes "never_found w version_4o_xpath 5" and "never_found w version_35_xpath 1"
  shows "fst (check_chatgpt4o w s) = Inr False"
proof -
  obtain x where 1: "as_element (page w (trace s) (WaitPresence (ByXPath version_4o_xpath) 5)) = Inl x"
    using assms(1) as_element_not_found unfolding never_found_def by blast
  obtain y where 2: "as_element (page w (trace s @ [WaitPresence (ByXPath version_4o_xpath) 5])
      (WaitPresence (ByXPath version_35_xpath) 1)) = Inl y"
    using assms(2) as_element_not_found unfolding never_found_def by blast
  show ?thesis
    by (simp add: check_chatgpt4o_def do_defs 1 2)
qed

lemma keeps_use_4o: "keeps P s t \<Longrightarrow> use_4o t = use_4o s"
  by (simp add: keeps_def)

lemma select_model_not_found:
  assumes "never_found w version_4o_xpath 5" and "never_found w version_35_xpath 1"
  shows "\<not> use_4o (snd (select_model w cfg s))"
proof (cases "check_chatgpt4o w (s\<lparr>use_4o := False\<rparr>)")
  case (Pair r t)
  have "use_4o t = use_4o (s\<lparr>use_4o := False\<rparr>)"
    using keeps_use_4o[OF check_chatgpt4o_keeps[of "\<lambda>a. True" "s\<lparr>use_4o := False\<rparr>" w]] Pair
    by simp
  moreover have "r = Inr False"
    using check_chatgpt4o_not_found[OF assms, of "s\<lparr>use_4o := False\<rparr>"] Pair by simp
  ultimately show ?thesis
    using Pair by (simp add: select_model_def and_then_def)
qed

lemma and_then_inv:
  assumes "I s" and "\<And>t. I t \<Longrightarrow> I (snd (m t))" and "\<And>a t. I t \<Longrightarrow> I (snd (f a t))"
  shows "I (snd (and_then m f s))"
proof (cases "m s")
  case (Pair r s1)
  have 1: "I s1" using assms(2)[OF assms(1)] Pair by simp
  show ?thesis
    using Pair 1 assms(3)[OF 1] by (cases r) (simp_all add: and_then_def)
qed

lemma init_not_found:
  assumes "never_found w version_4o_xpath 5" and "never_found w version_35_xpath 1"
  shows "\<not> use_4o (snd (init w cfg f))"
proof -
  have K: "keeps (\<lambda>a. True) t u \<Longrightarrow> \<not> use_4o t \<Longrightarrow> \<not> use_4o u" for t u
    by (simp add: keeps_def)
  have D: "keeps domain_free t u \<Longrightarrow> \<not> use_4o t \<Longrightarrow> \<not> use_4o u" for t u
    by (simp add: keeps_def)
  have login: "\<not> use_4o t \<Longrightarrow>
      \<not> use_4o (snd ((if cfg_manual_login cfg then manual_login w else (\<lambda>t. (Inr (), t))) t))" for t
    using K[OF manual_login_keeps[of "\<lambda>a. True" t w]] by simp
  show ?thesis
    unfolding init_def
    apply (rule and_then_inv[where I = "\<lambda>t. \<not> use_4o t"])
      apply (simp add: new_api_def)
     apply (erule K[OF open_browser_keeps, rotated], simp)
    apply (rule and_then_inv[where I = "\<lambda>t. \<not> use_4o t"])
      apply assumption
     apply (erule D[OF inject_cookies_keeps])
    apply (rule and_then_inv[where I = "\<lambda>t. \<not> use_4o t"])
      apply assumption
     apply (erule login)
    apply (rule and_then_inv[where I = "\<lambda>t. \<not> use_4o t"])
      apply assumption
     apply (rule select_model_not_found[OF assms])
    apply (rule and_then_inv[where I = "\<lambda>t. \<not> use_4o t"])
      apply assumption
     apply (erule K[OF locate_controls_keeps, rotated], simp)
    apply (rule and_then_inv[where I = "\<lambda>t. \<not> use_4o t"])
      apply assumption
     apply (erule K[OF send_context_keeps, rotated], simp)
    apply simp
    done
qed






text \<open>Counting the probes and clicks of \<open>check_conditions\<close>.\<close>

lemma new_actions_append: "trace t = trace s @ acts \<Longrightarrow> new_actions s t = acts"
  by (simp add: new_actions_def)




text \<open>The retry loop of \<open>send_request\<close>: what happens when no attempt reads an answer.\<close>

lemma continue_not_regenerate:
  "continue_xpath \<noteq> regenerate_xpath" "regenerate_xpath \<noteq> continue_xpath"
  by (simp_all add: continue_xpath_def regenerate_xpath_def)

lemma click_regen_once:
  "\<exists>acts. trace (snd (click_regen w s)) = trace s @ acts \<and> regen_attempts acts = 1 \<and>
     \<not> answer_read acts"
  by (auto simp: click_regen_def do_defs regen_attempts_def answer_read_def
      split: prod.splits sum.splits)

lemma check_conditions_no_regen:
  "\<exists>acts. trace (snd (check_conditions w send_button_css continue_xpath n s)) = trace s @ acts \<and>
     regen_attempts acts = 0 \<and> \<not> answer_read acts"
proof (induction n arbitrary: s)
  case 0
  then show ?case by (simp add: regen_attempts_def answer_read_def)
next
  case (Suc n)
  let ?a1 = "WaitPresence (ByCss send_button_css) (wait_time s)"
  let ?a2 = "WaitPresence (ByXPath continue_xpath) 5"
  let ?s1 = "s\<lparr>trace := trace s @ [?a1]\<rparr>"
  have 2: "\<exists>acts. trace (snd (check_conditions w send_button_css continue_xpath n
        (sleep 1 (s\<lparr>trace := trace s @ [?a1, ?a2, Click e]\<rparr>)))) = trace s @ acts \<and>
      regen_attempts acts = 0 \<and> \<not> answer_read acts" for e
  proof -
    let ?s4 = "sleep 1 (s\<lparr>trace := trace s @ [?a1, ?a2, Click e]\<rparr>)"
    obtain acts4 where 4:
      "trace (snd (check_conditions w send_button_css continue_xpath n ?s4)) = trace ?s4 @ acts4"
      "regen_attempts acts4 = 0" "\<not> answer_read acts4"
      using Suc[of ?s4] by blast
    show ?thesis
      apply (rule exI[where x = "[?a1, ?a2, Click e, Sleep 1] @ acts4"])
      using 4 by (simp add: sleep_def regen_attempts_def answer_read_def continue_not_regenerate)
  qed
  have 3: "\<exists>acts. trace (snd (check_conditions w send_button_css continue_xpath n ?s1)) =
      trace s @ acts \<and> regen_attempts acts = 0 \<and> \<not> answer_read acts"
  proof -
    obtain acts1 where 1:
      "trace (snd (check_conditions w send_button_css continue_xpath n ?s1)) = trace ?s1 @ acts1"
      "regen_attempts acts1 = 0" "\<not> answer_read acts1"
      using Suc[of ?s1] by blast
    show ?thesis
      apply (rule exI[where x = "?a1 # acts1"])
      using 1 by (simp add: regen_attempts_def answer_read_def)
  qed
  show ?case
    using 2 3
    by (auto simp: do_defs regen_attempts_def answer_read_def continue_not_regenerate
        split: prod.splits sum.splits)
qed

lemma answer_read_append [simp]:
  "answer_read (xs @ ys) = (answer_read xs \<or> answer_read ys)"
  by (simp add: answer_read_def)

lemma regen_attempts_append [simp]:
  "regen_attempts (xs @ ys) = regen_attempts xs + regen_attempts ys"
  by (simp add: regen_attempts_def)

lemma answer_read_Nil [simp]: "\<not> answer_read []"
  by (simp add: answer_read_def)

lemma regen_attempts_Nil [simp]: "regen_attempts [] = 0"
  by (simp add: regen_attempts_def)

lemma answer_read_Cons [simp]:
  "answer_read (a # xs) = (is_get_text a \<or> answer_read xs)"
  by (simp add: answer_read_def)

lemma regen_attempts_Cons [simp]:
  "regen_attempts (a # xs) =
     (if is_wait_for (ByXPath regenerate_xpath) a then Suc (regen_attempts xs)
      else regen_attempts xs)"
  by (simp add: regen_attempts_def)

lemma retry_loop_exhausted:
  "\<exists>acts. trace (snd (retry_loop w n la s)) = trace s @ acts \<and>
     (\<not> answer_read acts \<longrightarrow>
        regen_attempts acts = n \<and> raises_unbound (fst (retry_loop w n la s)))"
proof (induction n arbitrary: s la)
  case 0
  then show ?case
    by (simp add: answer_read_def regen_attempts_def raises_unbound_def split: option.splits)
next
  case (Suc n)
  let ?stop = "WaitPresence (ByCss stop_button_css) 3"
  have handler: "\<exists>acts. trace (snd (retry_loop w n la' (snd (click_regen w t)))) = trace t @ acts \<and>
      (\<not> answer_read acts \<longrightarrow> regen_attempts acts = Suc n \<and>
         raises_unbound (fst (retry_loop w n la' (snd (click_regen w t)))))" for t la'
  proof -
    obtain a1 where 1: "trace (snd (click_regen w t)) = trace t @ a1" "regen_attempts a1 = 1"
        "\<not> answer_read a1"
      using click_regen_once[of w t] by blast
    obtain a2 where 2:
      "trace (snd (retry_loop w n la' (snd (click_regen w t)))) = trace (snd (click_regen w t)) @ a2"
      "\<not> answer_read a2 \<longrightarrow> regen_attempts a2 = n \<and>
         raises_unbound (fst (retry_loop w n la' (snd (click_regen w t))))"
      using Suc[of la' "snd (click_regen w t)"] by blast
    show ?thesis
      apply (rule exI[where x = "a1 @ a2"])
      using 1 2 by simp
  qed
  obtain r0 s1 where st: "do_element w ?stop s = (r0, s1)"
    by (cases "do_element w ?stop s")
  have t1: "trace s1 = trace s @ [?stop]"
    using st by (auto simp: do_defs)
  obtain r1 s2 where cc: "check_conditions w send_button_css continue_xpath 4 s1 = (r1, s2)"
    by (cases "check_conditions w send_button_css continue_xpath 4 s1")
  obtain acc where t2: "trace s2 = trace s1 @ acc" "regen_attempts acc = 0" "\<not> answer_read acc"
    using check_conditions_no_regen[of w 4 s1] cc by auto
  have pre2: "regen_attempts ([?stop] @ acc) = 0" "\<not> answer_read ([?stop] @ acc)"
    using t2 by (simp_all add: regen_attempts_def answer_read_def)
  show ?case
  proof (cases r1)
    case (Inl ex)
    obtain acts where h: "trace (snd (retry_loop w n la (snd (click_regen w s2)))) = trace s2 @ acts"
      "\<not> answer_read acts \<longrightarrow> regen_attempts acts = Suc n \<and>
         raises_unbound (fst (retry_loop w n la (snd (click_regen w s2))))"
      using handler[of la s2] by blast
    have eq: "retry_loop w (Suc n) la s = retry_loop w n la (snd (click_regen w s2))"
      using st cc Inl by (simp split: prod.splits)
    show ?thesis
      apply (rule exI[where x = "([?stop] @ acc) @ acts"])
      using h t1 t2 pre2 unfolding eq by simp
  next
    case (Inr send_btn)
    let ?all = "WaitAllPresence (ByCss assistant_css) (wait_time s2)"
    obtain r2 s3 where wa: "do_elements w ?all s2 = (r2, s3)"
      by (cases "do_elements w ?all s2")
    have t3: "trace s3 = trace s2 @ [?all]"
      using wa by (auto simp: do_defs)
    have pre3: "regen_attempts (([?stop] @ acc) @ [?all]) = 0"
      "\<not> answer_read (([?stop] @ acc) @ [?all])"
      using pre2 by (simp_all add: regen_attempts_def answer_read_def)
    have failed: "\<exists>acts. trace (snd (retry_loop w n la' (snd (click_regen w s3)))) = trace s @ acts \<and>
      (\<not> answer_read acts \<longrightarrow> regen_attempts acts = Suc n \<and>
         raises_unbound (fst (retry_loop w n la' (snd (click_regen w s3)))))" for la'
    proof -
      obtain acts where h:
        "trace (snd (retry_loop w n la' (snd (click_regen w s3)))) = trace s3 @ acts"
        "\<not> answer_read acts \<longrightarrow> regen_attempts acts = Suc n \<and>
           raises_unbound (fst (retry_loop w n la' (snd (click_regen w s3))))"
        using handler[of la' s3] by blast
      show ?thesis
        apply (rule exI[where x = "(([?stop] @ acc) @ [?all]) @ acts"])
        using h t1 t2 t3 pre3 by simp
    qed
    show ?thesis
    proof (cases r2)
      case (Inl ex)
      have eq: "retry_loop w (Suc n) la s = retry_loop w n la (snd (click_regen w s3))"
        using st cc Inr wa Inl by (simp split: prod.splits)
      show ?thesis unfolding eq by (rule failed)
    next
      case els: (Inr els)
      show ?thesis
      proof (cases "els = []")
        case True
        have eq: "retry_loop w (Suc n) la s = retry_loop w n (Some els) (snd (click_regen w s3))"
          using st cc Inr wa els True by (simp split: prod.splits)
        show ?thesis unfolding eq by (rule failed)
      next
        case False
        have eq: "retry_loop w (Suc n) la s =
            do_text w (GetText (last els)) (s3\<lparr>send_button := send_btn\<rparr>)"
          using st cc Inr wa els False by simp
        show ?thesis
          unfolding eq
          apply (rule exI[where x = "(([?stop] @ acc) @ [?all]) @ [GetText (last els)]"])
          using t1 t2 t3 by (simp add: do_defs answer_read_def)
      qed
    qed
  qed
qed

lemma stuck_retry_loop:
  "retry_loop stuck_world 3 None t =
     (Inl UnboundLocalError,
      t\<lparr>trace := trace t @
        concat (replicate 3
          [WaitPresence (ByCss stop_button_css) 3,
           WaitPresence (ByCss send_button_css) (wait_time t),
           WaitPresence (ByXPath continue_xpath) 5,
           WaitAllPresence (ByCss assistant_css) (wait_time t),
           WaitPresence (ByXPath regenerate_xpath) 5])\<rparr>)"
  by (simp add: eval_nat_numeral click_regen_def do_defs as_element_def as_elements_def
      stuck_world_def stuck_page_def)

lemma retry_loop_reads_first: "reads_first (retry_loop w n la)"
  unfolding reads_first_def
proof (intro allI impI)
  fix s answer t
  assume a: "retry_loop w n la s = (Inr answer, t)"
  obtain acts where 1: "trace (snd (retry_loop w n la s)) = trace s @ acts"
    "\<not> answer_read acts \<longrightarrow>
       regen_attempts acts = n \<and> raises_unbound (fst (retry_loop w n la s))"
    using retry_loop_exhausted[of w n la s] by blast
  have "answer_read acts"
    using 1(2) a by (auto simp: raises_unbound_def)
  then show "\<exists>acts. trace t = trace s @ acts \<and> answer_read acts"
    using 1(1) a by auto
qed

lemma and_then_reads_first:
  assumes "\<And>s. \<exists>acts. trace (snd (m s)) = trace s @ acts"
    and "\<And>a. reads_first (f a)"
  shows "reads_first (and_then m f)"
  unfolding reads_first_def
proof (intro allI impI)
  fix s answer t
  assume a: "and_then m f s = (Inr answer, t)"
  obtain r s1 where ms: "m s = (r, s1)" by (cases "m s")
  obtain a0 where r: "r = Inr a0" and fs: "f a0 s1 = (Inr answer, t)"
    using a ms by (cases r) (auto simp: and_then_def)
  obtain acts1 where 1: "trace s1 = trace s @ acts1"
    using assms(1)[of s] ms by auto
  obtain acts2 where 2: "trace t = trace s1 @ acts2" "answer_read acts2"
    using assms(2)[of a0] fs unfolding reads_first_def by blast
  show "\<exists>acts. trace t = trace s @ acts \<and> answer_read acts"
    using 1 2 by (intro exI[where x = "acts1 @ acts2"]) simp
qed

lemma reads_first_update:
  assumes "reads_first g"
  shows "reads_first (\<lambda>t. g (t\<lparr>send_button := b\<rparr>))"
  unfolding reads_first_def
proof (intro allI impI)
  fix s answer t
  assume "g (s\<lparr>send_button := b\<rparr>) = (Inr answer, t)"
  with assms obtain acts where "trace t = trace (s\<lparr>send_button := b\<rparr>) @ acts"
    "answer_read acts"
    unfolding reads_first_def by blast
  then show "\<exists>acts. trace t = trace s @ acts \<and> answer_read acts"
    by auto
qed

lemma keeps_extends: "keeps P s t \<Longrightarrow> \<exists>acts. trace t = trace s @ acts"
  by (auto simp: keeps_def adds_only_def)

lemma submit_and_poll_reads_first: "reads_first (submit_and_poll w)"
proof -
  have T: "(\<lambda>a. True) a" for a :: action by simp
  have 1: "reads_first (and_then (do_flag w (IsEnabled btn)) (\<lambda>enabled.
      and_then (if enabled then do_unit w (Click btn) else (\<lambda>t'. (Inr (), t')))
        (\<lambda>u. retry_loop w 3 None)))" for btn
  proof (rule and_then_reads_first)
    show "\<exists>acts. trace (snd (do_flag w (IsEnabled btn) s)) = trace s @ acts" for s
      by (rule keeps_extends[OF do_flag_keeps[of "\<lambda>a. True"]]) simp
    show "reads_first (and_then (if enabled then do_unit w (Click btn) else (\<lambda>t'. (Inr (), t')))
        (\<lambda>u. retry_loop w 3 None))" for enabled
    proof (rule and_then_reads_first)
      show "\<exists>acts. trace (snd ((if enabled then do_unit w (Click btn)
          else (\<lambda>t'. (Inr (), t'))) s)) = trace s @ acts" for s
        using keeps_extends[OF do_unit_keeps[of "\<lambda>a. True" "Click btn" s w]] by simp
      show "reads_first (retry_loop w 3 None)" for u :: unit
        by (rule retry_loop_reads_first)
    qed
  qed
  show ?thesis
    unfolding submit_and_poll_def
  proof (rule and_then_reads_first)
    show "\<exists>acts. trace (snd (do_element w
        (WaitClickable (ByCss send_button_css) (wait_time s)) s)) = trace s @ acts" for s
      by (rule keeps_extends[OF do_element_keeps[of "\<lambda>a. True"]]) simp
    show "reads_first (\<lambda>t. and_then (do_flag w (IsEnabled btn)) (\<lambda>enabled.
        and_then (if enabled then do_unit w (Click btn) else (\<lambda>t'. (Inr (), t')))
          (\<lambda>u. retry_loop w 3 None)) (t\<lparr>send_button := Some btn\<rparr>))" for btn
      by (rule reads_first_update[OF 1])
  qed
qed

lemma send_request_reads_first: "reads_first (send_request w request)"
  unfolding reads_first_def
proof (intro allI impI)
  fix s answer t
  assume a: "send_request w request s = (Inr answer, t)"
  then obtain area where area: "prompt_text_area s = Some area"
    by (cases "prompt_text_area s") (auto simp: send_request_def)
  have "reads_first (and_then (do_unit w (Focus area)) (\<lambda>u.
          and_then (do_unit w (Click area)) (\<lambda>u.
          and_then (type_lines w area (str_split newline request)) (\<lambda>u.
            submit_and_poll w))))"
  proof (intro and_then_reads_first submit_and_poll_reads_first)
    show "\<exists>acts. trace (snd (do_unit w (Focus area) s)) = trace s @ acts" for s
      by (rule keeps_extends[OF do_unit_keeps[of "\<lambda>a. True"]]) simp
    show "\<exists>acts. trace (snd (do_unit w (Click area) s)) = trace s @ acts" for s
      by (rule keeps_extends[OF do_unit_keeps[of "\<lambda>a. True"]]) simp
    show "\<exists>acts. trace (snd (type_lines w area (str_split newline request) s)) = trace s @ acts"
      for s
      by (rule keeps_extends[OF type_lines_keeps[of "\<lambda>a. True"]]) simp
  qed
  then show "\<exists>acts. trace t = trace s @ acts \<and> answer_read acts"
    using a area unfolding reads_first_def by (simp add: send_request_def)
qed

section \<open>The claims\<close>

text \<open>
  C1. The retry loop of \<open>send_request\<close> (three attempts, \<open>last_answer\<close> unbound at its
  start): when no attempt gets as far as reading the text of an answer, that is, when all
  three attempts raise, \<open>click_regen\<close> is attempted exactly three times and the statement
  after the loop raises \<open>UnboundLocalError\<close> (or \<open>AttributeError\<close>, when a wait handed back
  an empty list). So \<open>send_request\<close> as a whole raises whenever it has not read the text
  of an answer: it never returns a string from the statement after the loop.
\<close>

theorem exhausted_retries_raise:
  "(\<not> answer_read (new_actions s (snd (retry_loop w 3 None s))) \<longrightarrow>
      regen_attempts (new_actions s (snd (retry_loop w 3 None s))) = 3 \<and>
      (fst (retry_loop w 3 None s) = Inl UnboundLocalError \<or>
       fst (retry_loop w 3 None s) = Inl AttributeError)) \<and>
   (\<not> answer_read (new_actions s (snd (send_request w request s))) \<longrightarrow>
      (\<exists>e. fst (send_request w request s) = Inl e))"
proof -
  obtain acts where 1: "trace (snd (retry_loop w 3 None s)) = trace s @ acts"
    "\<not> answer_read acts \<longrightarrow>
       regen_attempts acts = 3 \<and> raises_unbound (fst (retry_loop w 3 None s))"
    using retry_loop_exhausted[of w 3 None s] by blast
  have 2: "new_actions s (snd (retry_loop w 3 None s)) = acts"
    using 1(1) by (rule new_actions_append)
  have 3: "\<exists>e. fst (send_request w request s) = Inl e"
    if "\<not> answer_read (new_actions s (snd (send_request w request s)))"
  proof (cases "send_request w request s")
    case (Pair r t)
    show ?thesis
    proof (cases r)
      case (Inl e)
      then show ?thesis using Pair by simp
    next
      case (Inr answer)
      then obtain acts' where "trace t = trace s @ acts'" "answer_read acts'"
        using send_request_reads_first[of w request] Pair unfolding reads_first_def by blast
      then show ?thesis
        using that Pair by (simp add: new_actions_append)
    qed
  qed
  show ?thesis
    using 1(2) 2 3 by (simp add: raises_unbound_def)
qed

theorem exhausted_retries_raise_witness:
  "\<not> answer_read (new_actions ready_api (snd (retry_loop stuck_world 3 None ready_api))) \<and>
   regen_attempts (new_actions ready_api (snd (retry_loop stuck_world 3 None ready_api))) = 3 \<and>
   fst (retry_loop stuck_world 3 None ready_api) = Inl UnboundLocalError \<and>
   \<not> answer_read (new_actions ready_api (snd (send_request stuck_world ''hi'' ready_api))) \<and>
   regen_attempts (new_actions ready_api (snd (send_request stuck_world ''hi'' ready_api))) = 3 \<and>
   fst (send_request stuck_world ''hi'' ready_api) = Inl UnboundLocalError"
proof -
  have 1: "\<not> answer_read (new_actions ready_api (snd (retry_loop stuck_world 3 None ready_api)))"
    unfolding stuck_retry_loop by (simp add: new_actions_def eval_nat_numeral)
  have 2: "fst (retry_loop stuck_world 3 None ready_api) = Inl UnboundLocalError"
    unfolding stuck_retry_loop by simp
  have pg: "page stuck_world = stuck_page"
    by (simp add: stuck_world_def)
  have 3: "send_request stuck_world ''hi'' ready_api =
      retry_loop stuck_world 3 None
        (ready_api\<lparr>send_button := Some 4,
           trace := [Focus 3, Click 3, SendKeys 3 [Str ''hi''], SendKeys 3 [SHIFT, RETURN],
             WaitClickable (ByCss send_button_css) 10, IsEnabled 4, Click 4]\<rparr>)"
    by (simp add: send_request_def submit_and_poll_def and_then_def ready_api_def do_defs
        as_unit_def as_element_def as_flag_def newline_def pg stuck_page_def new_api_def
        del: retry_loop.simps)
  have 4: "\<not> answer_read (new_actions ready_api (snd (send_request stuck_world ''hi'' ready_api)))"
    unfolding 3 stuck_retry_loop
    by (simp add: new_actions_def ready_api_def new_api_def eval_nat_numeral)
  have 5: "regen_attempts (new_actions ready_api
      (snd (send_request stuck_world ''hi'' ready_api))) = 3"
    unfolding 3 stuck_retry_loop
    by (simp add: new_actions_def ready_api_def new_api_def eval_nat_numeral
        regenerate_xpath_def continue_xpath_def)
  have 6: "fst (send_request stuck_world ''hi'' ready_api) = Inl UnboundLocalError"
    unfolding 3 stuck_retry_loop by simp
  show ?thesis
    using 1 2 4 5 6 exhausted_retries_raise[of ready_api stuck_world "''hi''"] by simp
qed



text \<open>
  C3. Every cookie handed to \<open>add_cookie\<close> while the constructor runs is a dict without
  the key \<open>domain\<close>, whatever the cookies file contained.
\<close>

theorem injected_cookies_have_no_domain:
  "AddCookie cookie \<in> set (trace (snd (init w cfg f))) \<Longrightarrow>
   \<exists>kvs. cookie = JObject kvs \<and> ''domain'' \<notin> fst ` set kvs"
proof -
  assume a: "AddCookie cookie \<in> set (trace (snd (init w cfg f)))"
  from init_adds[of f w cfg] have "list_all domain_free (trace (snd (init w cfg f)))"
    by (auto simp: adds_only_def new_api_def)
  with a have "domain_free (AddCookie cookie)" by (auto simp: list_all_iff)
  then show ?thesis by (cases cookie) auto
qed

theorem injected_cookies_have_no_domain_witness:
  "AddCookie (JObject [(''name'', JString ''session'')])
     \<in> set (trace (snd (init blank_world example_config example_fs))) \<and>
   (\<exists>kvs. JObject [(''name'', JString ''session'')] = JObject kvs \<and>
      ''domain'' \<notin> fst ` set kvs)"
proof -
  have h: "AddCookie (JObject [(''name'', JString ''session'')])
     \<in> set (trace (snd (init blank_world example_config example_fs)))"
    by (simp add: eval_defs blank_world_def blank_page_def example_config_def example_fs_def
        example_loads_def example_cookies_def example_cookies_text_def)
  show ?thesis
    using h injected_cookies_have_no_domain[OF h] by simp
qed






text \<open>
  C6. With \<open>use_chatgpt4o\<close> set, when neither the indicator of the advanced model nor
  the model switcher is ever found, \<open>check_chatgpt4o\<close> returns false, \<open>use_4o\<close> is false
  after the constructor, and after any sequence of method calls \<open>upload_file\<close> returns
  false and leaves the state, the trace included, as it was.
\<close>

theorem no_advanced_model_no_upload:
  assumes "cfg_use_chatgpt4o cfg"
    and "never_found w version_4o_xpath 5" and "never_found w version_35_xpath 1"
  shows "fst (check_chatgpt4o w s) = Inr False \<and>
    \<not> use_4o (snd (init w cfg f)) \<and>
    upload_file w file_paths (call_methods w calls (snd (init w cfg f))) =
      (Inr False, call_methods w calls (snd (init w cfg f)))"
proof -
  have 1: "\<not> use_4o (snd (init w cfg f))"
    by (rule init_not_found[OF assms(2,3)])
  have "keeps (\<lambda>a. True) (snd (init w cfg f)) (call_methods w calls (snd (init w cfg f)))"
    by (rule call_methods_keeps) simp
  with 1 have "\<not> use_4o (call_methods w calls (snd (init w cfg f)))"
    by (simp add: keeps_def)
  then show ?thesis
    using 1 check_chatgpt4o_not_found[OF assms(2,3)] by (simp add: upload_file_def)
qed

theorem no_advanced_model_no_upload_witness:
  "cfg_use_chatgpt4o example_config \<and>
   never_found blank_world version_4o_xpath 5 \<and> never_found blank_world version_35_xpath 1 \<and>
   fst (check_chatgpt4o blank_world ready_api) = Inr False \<and>
   \<not> use_4o (snd (init blank_world example_config example_fs)) \<and>
   upload_file blank_world (PathStr ''notes.txt'')
     (call_methods blank_world [SendRequest ''hi'', RefreshPage]
        (snd (init blank_world example_config example_fs))) =
   (Inr False, call_methods blank_world [SendRequest ''hi'', RefreshPage]
        (snd (init blank_world example_config example_fs)))"
proof -
  have 1: "cfg_use_chatgpt4o example_config"
    by (simp add: example_config_def)
  have 2: "never_found blank_world version_4o_xpath 5"
    by (simp add: never_found_def blank_world_def blank_page_def)
  have 3: "never_found blank_world version_35_xpath 1"
    by (simp add: never_found_def blank_world_def blank_page_def)
  show ?thesis
    using 1 2 3 no_advanced_model_no_upload[OF 1 2 3, where s = ready_api and f = example_fs
        and file_paths = "PathStr ''notes.txt''" and calls = "[SendRequest ''hi'', RefreshPage]"]
    by simp
qed

text \<open>
  C7. \<open>is_login\<close> returns true exactly when the probe for the login button reports that
  there is no such element, and false exactly when the probe finds the button.
\<close>

theorem is_login_iff_no_login_button:
  "(fst (is_login w s) = Inr True \<longleftrightarrow>
      page w (trace s) (FindElement (ByCss login_button_css)) = Raise NoSuchElementException) \<and>
   (fst (is_login w s) = Inr False \<longleftrightarrow>
      (\<exists>button. page w (trace s) (FindElement (ByCss login_button_css)) = Elem button))"
  by (cases "page w (trace s) (FindElement (ByCss login_button_css))")
    (auto simp: is_login_def do_defs as_element_def)

theorem is_login_iff_no_login_button_witness:
  "fst (is_login blank_world ready_api) = Inr True \<and>
   page blank_world (trace ready_api) (FindElement (ByCss login_button_css))
     = Raise NoSuchElementException"
  using is_login_iff_no_login_button[of blank_world ready_api]
  by (simp add: blank_world_def blank_page_def)

text \<open>
  C8. \<open>delete_context\<close> never raises, whatever the three steps do, and the flag
  \<open>is_context_created\<close> is false afterwards.
\<close>

theorem delete_context_swallows_and_clears:
  "fst (delete_context w s) = Inr () \<and> \<not> is_context_created (snd (delete_context w s))"
  by (simp add: delete_context_def split: prod.splits)

text \<open>
  C9. With \<open>cookies_path\<close> left at its fallback, the empty string, the constructor never
  completes: \<open>os.path.exists('')\<close> is false and \<open>open('', 'w')\<close> raises. Once the
  browser is open the exception is the \<open>OSError\<close> of that \<open>open\<close>.
\<close>

theorem default_cookies_path_aborts_init:
  assumes "cfg_cookies_path cfg = None"
  shows "(\<exists>e. fst (init w cfg f) = Inl e) \<and>
    (fst (open_browser w cfg (new_api f)) = Inr () \<longrightarrow> fst (init w cfg f) = Inl OSError)"
  using assms
  by (cases "open_browser w cfg (new_api f)")
    (auto simp: init_def and_then_def cookies_path_def inject_cookies_empty_path
      split: sum.splits)

theorem default_cookies_path_aborts_init_witness:
  "cfg_cookies_path default_config = None \<and>
   fst (open_browser blank_world default_config (new_api empty_fs)) = Inr () \<and>
   fst (init blank_world default_config empty_fs) = Inl OSError"
  using default_cookies_path_aborts_init[of default_config blank_world empty_fs]
  by (simp add: default_config_def example_config_def open_browser_def and_then_def do_defs
      as_unit_def blank_world_def blank_page_def)

text \<open>
  C10. \<open>manual_login\<close> changes no file but \<open>cookies.pkl\<close>, and when it returns that file
  holds the JSON dump of the cookies the browser reported; the configured cookies path
  plays no part.
\<close>

theorem manual_login_writes_cookies_pkl:
  "(p \<noteq> cookies_pkl \<longrightarrow>
      contents (fs (snd (manual_login w s))) p = contents (fs s) p) \<and>
   (fst (manual_login w s) = Inr () \<longrightarrow>
      (\<exists>cookies_list. as_cookies (page w (trace s @ [Input ''Please log in manually and press Enter to continue...'']) GetCookies) = Inr cookies_list \<and>
         contents (fs (snd (manual_login w s))) cookies_pkl = Some (json_dump w cookies_list)))"
  by (auto simp: manual_login_def and_then_def do_defs write_file_def
      split: prod.splits sum.splits if_splits)

theorem manual_login_writes_cookies_pkl_witness:
  "''cookies.json'' \<noteq> cookies_pkl \<and>
   contents (fs (snd (manual_login blank_world ready_api))) ''cookies.json'' = None \<and>
   fst (manual_login blank_world ready_api) = Inr () \<and>
   contents (fs (snd (manual_login blank_world ready_api))) cookies_pkl = Some ''[]''"
  using manual_login_writes_cookies_pkl[of "''cookies.json''" blank_world ready_api]
  by (simp add: manual_login_def and_then_def do_defs write_file_def writable_def
      as_unit_def as_cookies_def blank_world_def blank_page_def example_dump_def
      ready_api_def new_api_def empty_fs_def cookies_pkl_def)


end
